theory Spec2Isabelle
  imports Main "HOL-Library.While_Combinator"
begin

section \<open>Python values and exceptions\<close>

text \<open>
  Exceptions of the Python source are values. \<open>HTTPError\<close> is what
  \<^verbatim>\<open>response.raise_for_status()\<close> raises, \<open>PyException\<close> is the plain
  \<^verbatim>\<open>raise Exception(...)\<close> of the database check.
\<close>

datatype py_error = TypeError | ValueError | AttributeError | KeyError | SyntaxError | HTTPError
  | PyException

datatype date = Date (year: int) (month: int) (day: int)

text \<open>
  A Python string is the list of its code points. The type \<open>string\<close> has the code points
  below 256; a string with a code point beyond them is not a value of the model.
\<close>

text \<open>
  An \<^verbatim>\<open>xml.etree.ElementTree.Element\<close>: tag, attribute dictionary, the text before the
  first child (\<^verbatim>\<open>None\<close> for an empty element) and the children in document order.
\<close>

datatype xml = Element (tag: string) (attrib: "(string \<times> string) list")
  (elem_text: "string option") (children: "xml list")

datatype pyval = PyNone | PyStr string | PyInt int | PyDate date | PyElement xml
  | PyList "pyval list" | PyDict "(string \<times> pyval) list"

subsection \<open>The builtin \<^verbatim>\<open>int()\<close>\<close>

text \<open>
  \<^verbatim>\<open>int(s)\<close> on a string: surrounding whitespace is stripped, one sign is allowed, the
  rest is a non-empty run of decimal digits in which single underscores may separate digits,
  with at most 4300 digits (the default of \<^verbatim>\<open>sys.get_int_max_str_digits()\<close>); anything
  else is a \<^verbatim>\<open>ValueError\<close>. Of the code points below 256, \<^verbatim>\<open>int()\<close> strips the
  characters 9 to 13, the space 32, and 133 and 160 (\<^verbatim>\<open>U+0085\<close> and \<^verbatim>\<open>U+00A0\<close>), and
  takes as decimal digits the characters 48 to 57 only.
\<close>

definition is_space :: "char \<Rightarrow> bool" where
  "is_space c = ((of_char c :: nat) \<in> {9, 10, 11, 12, 13, 32, 133, 160})"

definition is_digit :: "char \<Rightarrow> bool" where
  "is_digit c = (48 \<le> (of_char c :: nat) \<and> (of_char c :: nat) \<le> 57)"

definition digit_value :: "char \<Rightarrow> nat" where
  "digit_value c = of_char c - 48"

fun parse_digits :: "nat \<Rightarrow> string \<Rightarrow> nat option" where
  "parse_digits acc [] = Some acc"
| "parse_digits acc [c] = (if is_digit c then Some (10 * acc + digit_value c) else None)"
| "parse_digits acc (c # d # cs) =
     (if is_digit c then parse_digits (10 * acc + digit_value c) (d # cs)
      else if c = CHR ''_'' \<and> is_digit d then parse_digits (10 * acc + digit_value d) cs
      else None)"

definition parse_unsigned :: "string \<Rightarrow> nat option" where
  "parse_unsigned s =
     (case s of [] \<Rightarrow> None
      | c # cs \<Rightarrow> if is_digit c then parse_digits (digit_value c) cs else None)"

definition max_str_digits :: nat where
  "max_str_digits = 4300"

definition parse_body :: "string \<Rightarrow> nat option" where
  "parse_body s =
     (if max_str_digits < length (filter is_digit s) then None else parse_unsigned s)"

definition strip :: "string \<Rightarrow> string" where
  "strip s = rev (dropWhile is_space (rev (dropWhile is_space s)))"

definition int_of_str :: "string \<Rightarrow> py_error + int" where
  "int_of_str s =
     (case strip s of
        [] \<Rightarrow> Inl ValueError
      | c # cs \<Rightarrow>
          if c = CHR ''-'' then
            (case parse_body cs of None \<Rightarrow> Inl ValueError | Some n \<Rightarrow> Inr (- int n))
          else if c = CHR ''+'' then
            (case parse_body cs of None \<Rightarrow> Inl ValueError | Some n \<Rightarrow> Inr (int n))
          else
            (case parse_body (c # cs) of None \<Rightarrow> Inl ValueError | Some n \<Rightarrow> Inr (int n)))"

fun py_int :: "pyval \<Rightarrow> py_error + int" where
  "py_int (PyInt n) = Inr n"
| "py_int (PyStr s) = int_of_str s"
| "py_int v = Inl TypeError"

section \<open>The identifier search: \<^verbatim>\<open>get_article_ids\<close>\<close>

text \<open>
  \<^verbatim>\<open>PubMedClientBase.get_article_ids\<close> and \<^verbatim>\<open>PubMed._get_article_ids\<close> have the same body.
  The dictionary \<^verbatim>\<open>parameters\<close> keeps the client's identity entries unchanged; the entries
  the function writes are \<^verbatim>\<open>term\<close>, \<^verbatim>\<open>retmax\<close> and \<^verbatim>\<open>retstart\<close> (absent until the loop
  sets it).
\<close>

record parameters =
  query_term :: string
  retmax :: int
  retstart :: "int option"

text \<open>
  The JSON body of a search response: an object whose \<^verbatim>\<open>esearchresult\<close>, when present, is
  an object, and whose \<^verbatim>\<open>idlist\<close>, when present, is a list of strings. \<^verbatim>\<open>count\<close> and
  \<^verbatim>\<open>retmax\<close> are read with \<^verbatim>\<open>.get(key)\<close>, so an absent key and \<^verbatim>\<open>null\<close> are both
  \<open>PyNone\<close>.
\<close>

record esearchresult =
  esr_idlist :: "string list option"
  esr_count :: pyval
  esr_retmax :: pyval

record response =
  esearchresult :: "esearchresult option"

text \<open>
  The upstream source as \<^verbatim>\<open>_get\<close> shows it to the search: the reply to the \<open>k\<close>-th request
  of a search, given the parameters sent; \<open>Inl\<close> is the exception \<^verbatim>\<open>_get\<close> raises.
\<close>

type_synonym server = "nat \<Rightarrow> parameters \<Rightarrow> py_error + response"

definition get_idlist :: "response \<Rightarrow> string list" where
  "get_idlist r =
     (case esearchresult r of None \<Rightarrow> []
      | Some e \<Rightarrow> (case esr_idlist e of None \<Rightarrow> [] | Some ids \<Rightarrow> ids))"

definition get_count :: "response \<Rightarrow> pyval" where
  "get_count r = (case esearchresult r of None \<Rightarrow> PyNone | Some e \<Rightarrow> esr_count e)"

definition get_retmax :: "response \<Rightarrow> pyval" where
  "get_retmax r = (case esearchresult r of None \<Rightarrow> PyNone | Some e \<Rightarrow> esr_retmax e)"

text \<open>
  The local variables of \<^verbatim>\<open>get_article_ids\<close>. \<open>requests\<close> records the parameters of every
  request sent so far, in order; \<open>raised\<close> is the exception that left the function, if any.
\<close>

record search_state =
  article_ids :: "string list"
  params :: parameters
  total_result_count :: int
  retrieved_count :: int
  max_results :: int
  requests :: "parameters list"
  raised :: "py_error option"

text \<open>The statements before the loop.\<close>

definition first_request :: "server \<Rightarrow> string \<Rightarrow> int \<Rightarrow> search_state" where
  "first_request srv query maxr =
     (let p0 = \<lparr>query_term = query, retmax = 50000, retstart = None\<rparr>;
          p = (if maxr < retmax p0 then p0\<lparr>retmax := maxr\<rparr> else p0);
          st = \<lparr>article_ids = [], params = p, total_result_count = 0, retrieved_count = 0,
                max_results = maxr, requests = [p], raised = None\<rparr>
      in case srv 0 p of
           Inl e \<Rightarrow> st\<lparr>raised := Some e\<rparr>
         | Inr r \<Rightarrow>
             (let st1 = st\<lparr>article_ids := article_ids st @ get_idlist r\<rparr>
              in case py_int (get_count r) of
                   Inl e \<Rightarrow> st1\<lparr>raised := Some e\<rparr>
                 | Inr cnt \<Rightarrow>
                     (case py_int (get_retmax r) of
                        Inl e \<Rightarrow> st1\<lparr>raised := Some e\<rparr>
                      | Inr retrieved \<Rightarrow>
                          st1\<lparr>total_result_count := cnt, retrieved_count := retrieved,
                              max_results := (if maxr = - 1 then cnt else maxr)\<rparr>)))"

text \<open>The loop condition; an exception raised in the body leaves the loop.\<close>

definition loop_cond :: "search_state \<Rightarrow> bool" where
  "loop_cond st =
     (raised st = None \<and> retrieved_count st < total_result_count st
        \<and> retrieved_count st < max_results st)"

text \<open>One pass through the loop body.\<close>

definition loop_body :: "server \<Rightarrow> search_state \<Rightarrow> search_state" where
  "loop_body srv st =
     (let p1 = (if max_results st - retrieved_count st < retmax (params st)
                then (params st)\<lparr>retmax := max_results st - retrieved_count st\<rparr>
                else params st);
          p = p1\<lparr>retstart := Some (retrieved_count st)\<rparr>;
          st1 = st\<lparr>params := p, requests := requests st @ [p]\<rparr>
      in case srv (length (requests st)) p of
           Inl e \<Rightarrow> st1\<lparr>raised := Some e\<rparr>
         | Inr r \<Rightarrow>
             (let st2 = st1\<lparr>article_ids := article_ids st1 @ get_idlist r\<rparr>
              in case py_int (get_retmax r) of
                   Inl e \<Rightarrow> st2\<lparr>raised := Some e\<rparr>
                 | Inr n \<Rightarrow> st2\<lparr>retrieved_count := retrieved_count st2 + n\<rparr>))"

text \<open>What the caller sees of a final state: the exception, or the returned list.\<close>

definition outcome :: "search_state \<Rightarrow> py_error + string list" where
  "outcome st = (case raised st of Some e \<Rightarrow> Inl e | None \<Rightarrow> Inr (article_ids st))"

text \<open>
  The whole function. \<open>None\<close> means that the call never returns: the \<^verbatim>\<open>while\<close> loop runs
  forever.
\<close>

definition get_article_ids :: "server \<Rightarrow> string \<Rightarrow> int \<Rightarrow> (py_error + string list) option" where
  "get_article_ids srv query maxr =
     map_option outcome (while_option loop_cond (loop_body srv) (first_request srv query maxr))"

text \<open>
  The state after the first request and at most \<open>n\<close> passes through the loop body: every
  moment of every run, also of one that never returns.
\<close>

fun run_pages :: "server \<Rightarrow> string \<Rightarrow> int \<Rightarrow> nat \<Rightarrow> search_state" where
  "run_pages srv query maxr 0 = first_request srv query maxr"
| "run_pages srv query maxr (Suc n) =
     (let st = run_pages srv query maxr n in if loop_cond st then loop_body srv st else st)"

text \<open>The \<^verbatim>\<open>retmax\<close> a reply reports, as the function reads it (0 when it cannot be read).\<close>

definition reported_retmax :: "py_error + response \<Rightarrow> int" where
  "reported_retmax reply =
     (case reply of Inl e \<Rightarrow> 0
      | Inr r \<Rightarrow> (case py_int (get_retmax r) of Inl e \<Rightarrow> 0 | Inr n \<Rightarrow> n))"

subsection \<open>Properties of the upstream source\<close>

text \<open>The offset a request asks for: \<^verbatim>\<open>retstart\<close>, which the source takes as 0 when absent.\<close>

definition offset :: "parameters \<Rightarrow> int" where
  "offset p = (case retstart p of None \<Rightarrow> 0 | Some s \<Rightarrow> s)"










subsection \<open>Loop invariants\<close>

text \<open>
  Every \<^verbatim>\<open>retstart\<close> sent is the sum of the \<^verbatim>\<open>retmax\<close> values reported before it, and so
  is \<^verbatim>\<open>retrieved_count\<close> while no exception has been raised.
\<close>

definition offsets_ok :: "server \<Rightarrow> search_state \<Rightarrow> bool" where
  "offsets_ok srv st =
     ((\<forall>k. 0 < k \<and> k < length (requests st) \<longrightarrow>
         retstart (requests st ! k) = Some (\<Sum>j<k. reported_retmax (srv j (requests st ! j))))
      \<and> (raised st = None \<longrightarrow>
           retrieved_count st = (\<Sum>j<length (requests st). reported_retmax (srv j (requests st ! j)))))"




subsection \<open>Three concrete sources\<close>

text \<open>
  A source that holds the identifiers \<open>all_ids\<close> and serves them in pages of at most \<open>cap\<close>:
  the page starts at the requested offset and is as long as requested, capped by \<open>cap\<close>
  (a negative page size is answered with \<open>cap\<close>).
\<close>

definition paged_source :: "nat \<Rightarrow> string list \<Rightarrow> server" where
  "paged_source cap all_ids k p =
     (let size = (if retmax p < 0 then cap else min cap (nat (retmax p)));
          page = take size (drop (nat (offset p)) all_ids)
      in Inr \<lparr>esearchresult = Some \<lparr>esr_idlist = Some page,
            esr_count = PyInt (int (length all_ids)), esr_retmax = PyInt (int (length page))\<rparr>\<rparr>)"

definition five_ids :: "string list" where
  "five_ids = [''11'', ''12'', ''13'', ''14'', ''15'']"

text \<open>The paged source with a hiccup: its second reply is an empty page.\<close>

definition hiccup_source :: "nat \<Rightarrow> string list \<Rightarrow> server" where
  "hiccup_source cap all_ids k p =
     (if k = 1
      then Inr \<lparr>esearchresult = Some \<lparr>esr_idlist = Some [],
             esr_count = PyInt (int (length all_ids)), esr_retmax = PyInt 0\<rparr>\<rparr>
      else paged_source cap all_ids k p)"


section \<open>The download-link resolver: \<^verbatim>\<open>get_article_download_url\<close>\<close>

subsection \<open>Element paths\<close>

text \<open>
  \<^verbatim>\<open>Element.iter()\<close> without the element itself: all descendants in document order.
\<close>

fun descendants :: "xml \<Rightarrow> xml list" where
  "descendants (Element t a x cs) = concat (map (\<lambda>c. c # descendants c) cs)"

text \<open>
  The element paths the sources use: a sequence of steps, each to the children
  (\<^verbatim>\<open>tag\<close>, \<^verbatim>\<open>/tag\<close>) or to the descendants (\<^verbatim>\<open>.//tag\<close>) with a tag and an optional
  predicate \<^verbatim>\<open>[@key='value']\<close>.
\<close>

datatype step = Child string "(string \<times> string) option"
  | Descendant string "(string \<times> string) option"

definition matches :: "string \<Rightarrow> (string \<times> string) option \<Rightarrow> xml \<Rightarrow> bool" where
  "matches t pr e =
     (tag e = t \<and> (case pr of None \<Rightarrow> True | Some (k, v) \<Rightarrow> map_of (attrib e) k = Some v))"

fun select :: "step \<Rightarrow> xml \<Rightarrow> xml list" where
  "select (Child t pr) e = filter (matches t pr) (children e)"
| "select (Descendant t pr) e = filter (matches t pr) (descendants e)"

definition findall :: "step list \<Rightarrow> xml \<Rightarrow> xml list" where
  "findall path e = foldl (\<lambda>es s. concat (map (select s) es)) [e] path"

text \<open>\<^verbatim>\<open>Element.find\<close>: the first match, or \<^verbatim>\<open>None\<close>.\<close>

definition find_first :: "step list \<Rightarrow> xml \<Rightarrow> xml option" where
  "find_first path e = (case findall path e of [] \<Rightarrow> None | x # xs \<Rightarrow> Some x)"

subsection \<open>The resolver\<close>

text \<open>
  What \<^verbatim>\<open>xml.fromstring\<close> makes of the response text: it raises, or it returns the root.
\<close>

datatype body = Malformed | Document xml

definition extract_xml :: "body \<Rightarrow> xml option" where
  "extract_xml data = (case data of Malformed \<Rightarrow> None | Document root \<Rightarrow> Some root)"

text \<open>
  The loop looks a link up with \<^verbatim>\<open>record.find(f".//link[@format='{accepted_format}']")\<close>:
  the format is spliced, unescaped, between two single quotes of the path text.
\<close>

definition link_path :: "string \<Rightarrow> string" where
  "link_path accepted_format =
     ''.//link[@format='' @ [CHR 0x27] @ accepted_format @ [CHR 0x27] @ '']''"

definition has_quote :: "string \<Rightarrow> bool" where
  "has_quote accepted_format = (CHR 0x27 \<in> set accepted_format)"

text \<open>
  For a format without a single quote the path text is one descendant step with the
  predicate \<^verbatim>\<open>[@format='...']\<close>, whatever else the format contains: the library reads
  everything between the two quotes as the value to compare the attribute with. For a
  format with a single quote the text is another path, or none: the library raises
  \<^verbatim>\<open>SyntaxError\<close> (\<^verbatim>\<open>p'df\<close>) or selects by the predicates and steps that the format
  brings in (\<^verbatim>\<open>pdf'][@href='x\<close>). \<open>path_find\<close> is \<^verbatim>\<open>Element.find\<close> on such a path text;
  it is a parameter of the model, and nothing is assumed about it.
\<close>

definition find_by_format ::
  "(string \<Rightarrow> xml \<Rightarrow> py_error + xml option) \<Rightarrow> xml \<Rightarrow> string \<Rightarrow> py_error + xml option" where
  "find_by_format path_find r accepted_format =
     (if has_quote accepted_format then path_find (link_path accepted_format) r
      else Inr (find_first [Descendant ''link'' (Some (''format'', accepted_format))] r))"

text \<open>
  The \<^verbatim>\<open>for accepted_format in accepted_formats\<close> loop. \<^verbatim>\<open>record.find\<close> on an absent
  record is an attribute access on \<^verbatim>\<open>None\<close>, which raises before the path is looked at;
  \<^verbatim>\<open>link.attrib['href']\<close> raises \<^verbatim>\<open>KeyError\<close> when the link has no such attribute.
\<close>

fun for_accepted_format ::
  "(string \<Rightarrow> xml \<Rightarrow> py_error + xml option) \<Rightarrow> xml option \<Rightarrow> string list
     \<Rightarrow> py_error + string option" where
  "for_accepted_format path_find record [] = Inr None"
| "for_accepted_format path_find record (accepted_format # rest) =
     (case record of
        None \<Rightarrow> Inl AttributeError
      | Some r \<Rightarrow>
          (case find_by_format path_find r accepted_format of
             Inl e \<Rightarrow> Inl e
           | Inr (Some link) \<Rightarrow>
               (case map_of (attrib link) ''href'' of
                  None \<Rightarrow> Inl KeyError
                | Some href \<Rightarrow> Inr (Some href))
           | Inr None \<Rightarrow> for_accepted_format path_find record rest))"

text \<open>
  \<open>db\<close> is \<^verbatim>\<open>self.parameters["db"]\<close>, \<open>res\<close> the outcome of the lookup call \<^verbatim>\<open>_get\<close>.
  The class \<^verbatim>\<open>PMC\<close> fixes \<open>db\<close> to \<^verbatim>\<open>pmc\<close>. \<^verbatim>\<open>PubMed.get_article_download_url\<close> of
  \<^verbatim>\<open>pymedB/pubmed_client.py\<close> has the same body; the one of \<^verbatim>\<open>pymed/api.py\<close> is the
  instance with \<^verbatim>\<open>accepted_formats = ['pdf', 'tgz']\<close>, written out.
\<close>

definition get_article_download_url ::
  "(string \<Rightarrow> xml \<Rightarrow> py_error + xml option) \<Rightarrow> string \<Rightarrow> string list \<Rightarrow> py_error + body
     \<Rightarrow> py_error + string option" where
  "get_article_download_url path_find db accepted_formats res =
     (if db \<noteq> ''pmc'' then Inl PyException
      else case res of
        Inl e \<Rightarrow> Inl e
      | Inr data \<Rightarrow>
          (case extract_xml data of
             None \<Rightarrow> Inr None
           | Some root \<Rightarrow>
               (case find_first [Child ''error'' None] root of
                  Some err \<Rightarrow> Inr None
                | None \<Rightarrow>
                    for_accepted_format path_find (find_first [Descendant ''record'' None] root)
                      accepted_formats)))"

subsection \<open>The specification's vocabulary\<close>

text \<open>The response root contains an \<^verbatim>\<open>error\<close> element.\<close>

definition has_error :: "xml \<Rightarrow> bool" where
  "has_error root = (\<exists>c \<in> set (children root). tag c = ''error'')"

text \<open>The record node: the first \<^verbatim>\<open>record\<close> element below the root.\<close>

definition first_record :: "xml \<Rightarrow> xml option" where
  "first_record root = List.find (\<lambda>e. tag e = ''record'') (descendants root)"

definition is_link :: "string \<Rightarrow> xml \<Rightarrow> bool" where
  "is_link f l = (tag l = ''link'' \<and> map_of (attrib l) ''format'' = Some f)"

definition has_link :: "xml \<Rightarrow> string \<Rightarrow> bool" where
  "has_link r f = (\<exists>l \<in> set (descendants r). is_link f l)"

text \<open>
  The first link, in document order under the record, whose format is the earliest entry
  of the preference list for which the record has a link at all.
\<close>

definition first_matching_link :: "xml \<Rightarrow> string list \<Rightarrow> xml option" where
  "first_matching_link r fs =
     (case List.find (has_link r) fs of
        None \<Rightarrow> None
      | Some f \<Rightarrow> List.find (is_link f) (descendants r))"

text \<open>
  The entries of the preference list before the first one with a single quote: the
  formats that are looked up by a comparison of the attribute.
\<close>

definition plain_prefix :: "string list \<Rightarrow> string list" where
  "plain_prefix fs = takeWhile (\<lambda>f. \<not> has_quote f) fs"

text \<open>
  A library that rejects every path text handed to it, for the examples: their formats
  have no quote, so that no path text reaches it.
\<close>

definition rejecting_find :: "string \<Rightarrow> xml \<Rightarrow> py_error + xml option" where
  "rejecting_find path e = Inl SyntaxError"

text \<open>
  Three lookup responses: a record with a single \<^verbatim>\<open>tgz\<close> link, a bare root, and an
  \<^verbatim>\<open>error\<close> element.
\<close>

definition tgz_only :: xml where
  "tgz_only =
     Element ''OA'' [] None
       [Element ''responseDate'' [] (Some ''2024-01-01 00:00:00'') [],
        Element ''records'' [(''returned-count'', ''1'')] None
          [Element ''record'' [(''id'', ''PMC13901''), (''license'', ''CC BY'')] None
             [Element ''link'' [(''format'', ''tgz''), (''href'', ''ftp://host/a.tar.gz'')] None []]]]"

definition empty_oa :: xml where
  "empty_oa = Element ''OA'' [] None []"

definition error_oa :: xml where
  "error_oa =
     Element ''OA'' [] None
       [Element ''error'' [(''code'', ''idIsNotOpenAccess'')]
          (Some ''identifier is not open access'') []]"

section \<open>The article entity: \<^verbatim>\<open>PubMedArticle\<close>\<close>

subsection \<open>Exceptions in sequence\<close>

definition bind_err :: "py_error + 'a \<Rightarrow> ('a \<Rightarrow> py_error + 'b) \<Rightarrow> py_error + 'b" where
  "bind_err m f = (case m of Inl e \<Rightarrow> Inl e | Inr x \<Rightarrow> f x)"

fun map_err :: "('a \<Rightarrow> py_error + 'b) \<Rightarrow> 'a list \<Rightarrow> py_error + 'b list" where
  "map_err f [] = Inr []"
| "map_err f (x # xs) = bind_err (f x) (\<lambda>y. bind_err (map_err f xs) (\<lambda>ys. Inr (y # ys)))"

definition str_or_none :: "string option \<Rightarrow> pyval" where
  "str_or_none t = (case t of None \<Rightarrow> PyNone | Some s \<Rightarrow> PyStr s)"

subsection \<open>\<^verbatim>\<open>datetime.date\<close>\<close>

definition is_leap :: "int \<Rightarrow> bool" where
  "is_leap y = (y mod 4 = 0 \<and> (y mod 100 \<noteq> 0 \<or> y mod 400 = 0))"

definition days_in_month :: "int \<Rightarrow> int \<Rightarrow> int" where
  "days_in_month y m =
     (if m = 2 then (if is_leap y then 29 else 28)
      else if m = 4 \<or> m = 6 \<or> m = 9 \<or> m = 11 then 30 else 31)"

text \<open>The constructor raises \<^verbatim>\<open>ValueError\<close> outside the years 1 to 9999 and the calendar.\<close>

definition py_date :: "int \<Rightarrow> int \<Rightarrow> int \<Rightarrow> py_error + date" where
  "py_date y m d =
     (if \<not> (1 \<le> y \<and> y \<le> 9999) then Inl ValueError
      else if \<not> (1 \<le> m \<and> m \<le> 12) then Inl ValueError
      else if \<not> (1 \<le> d \<and> d \<le> days_in_month y m) then Inl ValueError
      else Inr (Date y m d))"

subsection \<open>The field helper\<close>

text \<open>
  Modelled from the spec: \<^verbatim>\<open>helpers.get_content\<close> is imported by \<^verbatim>\<open>article.py\<close> and
  \<^verbatim>\<open>book.py\<close> but is not among the sources. The specification (XmlMapper, \<^verbatim>\<open>text_at\<close>)
  says: returns the text content of the first element matching a relative path under a
  given subtree root, or the default if no match exists, and never throws for a missing
  path. It says nothing of an absent subtree root; here that is the \<^verbatim>\<open>AttributeError\<close> of
  an attribute access on \<^verbatim>\<open>None\<close>. The only caller that can pass \<^verbatim>\<open>None\<close> is the
  \<^verbatim>\<open>try\<close> block of \<^verbatim>\<open>_extract_publication_date\<close>, whose result is the same if the
  helper returns the default instead, since the year's default is \<^verbatim>\<open>None\<close>.
\<close>

definition get_content ::
  "xml option \<Rightarrow> step list \<Rightarrow> string option \<Rightarrow> py_error + string option" where
  "get_content element path dflt =
     (case element of
        None \<Rightarrow> Inl AttributeError
      | Some e \<Rightarrow>
          (case find_first path e of None \<Rightarrow> Inr dflt | Some m \<Rightarrow> Inr (elem_text m)))"

definition content :: "step list \<Rightarrow> xml \<Rightarrow> py_error + pyval" where
  "content path e = bind_err (get_content (Some e) path None) (\<lambda>t. Inr (str_or_none t))"

subsection \<open>The publication date\<close>

text \<open>The body of the \<^verbatim>\<open>try\<close> block of \<^verbatim>\<open>_extract_publication_date\<close>.\<close>

definition publication_date_try :: "xml \<Rightarrow> py_error + date" where
  "publication_date_try xml_element =
     (let publication_date =
            find_first [Descendant ''PubMedPubDate'' (Some (''PubStatus'', ''pubmed''))] xml_element
      in bind_err (get_content publication_date [Descendant ''Year'' None] None) (\<lambda>y.
         bind_err (py_int (str_or_none y)) (\<lambda>publication_year.
         bind_err (get_content publication_date [Descendant ''Month'' None] (Some ''1'')) (\<lambda>m.
         bind_err (py_int (str_or_none m)) (\<lambda>publication_month.
         bind_err (get_content publication_date [Descendant ''Day'' None] (Some ''1'')) (\<lambda>d.
         bind_err (py_int (str_or_none d)) (\<lambda>publication_day.
         py_date publication_year publication_month publication_day)))))))"

text \<open>
  \<^verbatim>\<open>_extract_publication_date\<close>: \<^verbatim>\<open>except Exception\<close> prints the exception and returns
  \<^verbatim>\<open>None\<close>.
\<close>

definition extract_publication_date :: "xml \<Rightarrow> py_error + date option" where
  "extract_publication_date xml_element =
     (case publication_date_try xml_element of
        Inl e \<Rightarrow> Inr None
      | Inr d \<Rightarrow> Inr (Some d))"

text \<open>
  The specification's vocabulary: the node that carries the date, and one of its parts
  with what stands for the part when its element is absent.
\<close>

definition pubmed_pub_date :: "xml \<Rightarrow> xml option" where
  "pubmed_pub_date xml_element =
     find_first [Descendant ''PubMedPubDate'' (Some (''PubStatus'', ''pubmed''))] xml_element"

definition part_or :: "xml \<Rightarrow> string \<Rightarrow> py_error + int \<Rightarrow> py_error + int" where
  "part_or pd name absent =
     (case find_first [Descendant name None] pd of
        None \<Rightarrow> absent
      | Some el \<Rightarrow> py_int (str_or_none (elem_text el)))"

subsection \<open>Instances with \<^verbatim>\<open>__slots__\<close>\<close>

text \<open>An instance: the value of every slot that has been set.\<close>

type_synonym py_object = "string \<rightharpoonup> pyval"

definition dict_get :: "(string \<rightharpoonup> pyval) \<Rightarrow> string \<Rightarrow> pyval \<Rightarrow> pyval" where
  "dict_get d key dflt = (case d key of None \<Rightarrow> dflt | Some v \<Rightarrow> v)"

text \<open>
  \<^verbatim>\<open>for field in self.__slots__: self.__setattr__(field, kwargs.get(field, None))\<close>
\<close>

fun set_slots :: "string list \<Rightarrow> (string \<rightharpoonup> pyval) \<Rightarrow> py_object \<Rightarrow> py_object" where
  "set_slots [] kwargs self = self"
| "set_slots (field # rest) kwargs self =
     set_slots rest kwargs (self(field \<mapsto> dict_get kwargs field PyNone))"

text \<open>The assignments \<^verbatim>\<open>self.field = self._extract_field(xml_element)\<close>, in order.\<close>

fun assign_all ::
  "(string \<times> (xml \<Rightarrow> py_error + pyval)) list \<Rightarrow> xml \<Rightarrow> py_object \<Rightarrow> py_error + py_object" where
  "assign_all [] e self = Inr self"
| "assign_all ((field, extract) # rest) e self =
     (case extract e of
        Inl err \<Rightarrow> Inl err
      | Inr v \<Rightarrow> assign_all rest e (self(field \<mapsto> v)))"

subsection \<open>The class\<close>

definition article_slots :: "string list" where
  "article_slots =
     [''pubmed_id'', ''title'', ''abstract'', ''keywords'', ''journal'', ''publication_date'',
      ''authors'', ''methods'', ''conclusions'', ''results'', ''copyrights'', ''doi'', ''xml'']"

definition extract_keywords :: "xml \<Rightarrow> py_error + pyval" where
  "extract_keywords e =
     Inr (PyList (map (\<lambda>keyword. str_or_none (elem_text keyword))
                    (findall [Descendant ''Keyword'' None] e)))"

definition article_author :: "xml \<Rightarrow> py_error + pyval" where
  "article_author author =
     bind_err (content [Descendant ''LastName'' None] author) (\<lambda>lastname.
     bind_err (content [Descendant ''ForeName'' None] author) (\<lambda>firstname.
     bind_err (content [Descendant ''Initials'' None] author) (\<lambda>initials.
     bind_err (content [Descendant ''AffiliationInfo'' None, Child ''Affiliation'' None] author)
       (\<lambda>affiliation.
     Inr (PyDict [(''lastname'', lastname), (''firstname'', firstname),
                  (''initials'', initials), (''affiliation'', affiliation)])))))"

definition article_extract_authors :: "xml \<Rightarrow> py_error + pyval" where
  "article_extract_authors e =
     bind_err (map_err article_author (findall [Descendant ''Author'' None] e))
       (\<lambda>authors. Inr (PyList authors))"

text \<open>\<^verbatim>\<open>_initializeFromXML\<close>: the fields in the order they are assigned.\<close>

definition article_extractors :: "(string \<times> (xml \<Rightarrow> py_error + pyval)) list" where
  "article_extractors =
     [(''pubmed_id'', content [Descendant ''ArticleId'' (Some (''IdType'', ''pubmed''))]),
      (''title'', content [Descendant ''ArticleTitle'' None]),
      (''keywords'', extract_keywords),
      (''journal'', content [Descendant ''Journal'' None, Child ''Title'' None]),
      (''abstract'', content [Descendant ''AbstractText'' None]),
      (''conclusions'', content [Descendant ''AbstractText'' (Some (''Label'', ''CONCLUSION''))]),
      (''methods'', content [Descendant ''AbstractText'' (Some (''Label'', ''METHOD''))]),
      (''results'', content [Descendant ''AbstractText'' (Some (''Label'', ''RESULTS''))]),
      (''copyrights'', content [Descendant ''CopyrightInformation'' None]),
      (''doi'', content [Descendant ''ArticleId'' (Some (''IdType'', ''doi''))]),
      (''publication_date'', \<lambda>e. bind_err (extract_publication_date e)
           (\<lambda>d. Inr (case d of None \<Rightarrow> PyNone | Some dt \<Rightarrow> PyDate dt))),
      (''authors'', article_extract_authors),
      (''xml'', \<lambda>e. Inr (PyElement e))]"

text \<open>\<^verbatim>\<open>PubMedArticle.__init__(xml_element=None, **kwargs)\<close>\<close>

definition PubMedArticle_init :: "xml option \<Rightarrow> (string \<rightharpoonup> pyval) \<Rightarrow> py_error + py_object" where
  "PubMedArticle_init xml_element kwargs =
     (case xml_element of
        Some e \<Rightarrow> assign_all article_extractors e Map.empty
      | None \<Rightarrow> Inr (set_slots article_slots kwargs Map.empty))"

text \<open>
  \<^verbatim>\<open>{key: self.__getattribute__(key) for key in self.__slots__}\<close>: reading a slot that
  was never set raises \<^verbatim>\<open>AttributeError\<close>. The dictionary is the list of its items in
  insertion order.
\<close>

fun getattribute_all :: "string list \<Rightarrow> py_object \<Rightarrow> py_error + (string \<times> pyval) list" where
  "getattribute_all [] self = Inr []"
| "getattribute_all (key # keys) self =
     (case self key of
        None \<Rightarrow> Inl AttributeError
      | Some v \<Rightarrow> bind_err (getattribute_all keys self) (\<lambda>rest. Inr ((key, v) # rest)))"

definition toDict :: "py_object \<Rightarrow> py_error + (string \<times> pyval) list" where
  "toDict self = getattribute_all article_slots self"

subsection \<open>Sample records\<close>

definition sample_pub_date :: xml where
  "sample_pub_date =
     Element ''PubMedPubDate'' [(''PubStatus'', ''pubmed'')] None
       [Element ''Year'' [] (Some ''2020'') [], Element ''Month'' [] (Some ''5'') []]"

definition sample_article :: xml where
  "sample_article =
     Element ''PubmedArticle'' [] None
       [Element ''MedlineCitation'' [] None
          [Element ''Article'' [] None
             [Element ''Journal'' [] None [Element ''Title'' [] (Some ''The Journal'') []],
              Element ''ArticleTitle'' [] (Some ''X'') []]],
        Element ''PubmedData'' [] None
          [Element ''History'' [] None
             [Element ''PubMedPubDate'' [(''PubStatus'', ''received'')] None
                [Element ''Year'' [] (Some ''2019'') []],
              sample_pub_date],
           Element ''ArticleIdList'' [] None
             [Element ''ArticleId'' [(''IdType'', ''pubmed'')] (Some ''123'') []]]]"

definition yearless_pub_date :: xml where
  "yearless_pub_date =
     Element ''PubMedPubDate'' [(''PubStatus'', ''pubmed'')] None
       [Element ''Month'' [] (Some ''5'') []]"

definition undated_article :: xml where
  "undated_article =
     Element ''PubmedArticle'' [] None
       [Element ''PubmedData'' [] None [Element ''History'' [] None [yearless_pub_date]]]"

section \<open>The book entity: \<^verbatim>\<open>PubMedBookArticle\<close>\<close>

definition book_slots :: "string list" where
  "book_slots =
     [''pubmed_id'', ''title'', ''abstract'', ''publication_date'', ''authors'', ''copyrights'',
      ''doi'', ''isbn'', ''language'', ''publication_type'', ''sections'', ''publisher'',
      ''publisher_location'']"

text \<open>
  The names the class body defines. The class has no base but \<^verbatim>\<open>object\<close>, whose
  attributes all have names of the form \<^verbatim>\<open>__name__\<close>, and it defines no
  \<^verbatim>\<open>__getattr__\<close>.
\<close>

definition book_methods :: "string list" where
  "book_methods =
     [''__init__'', ''_extract_pubmed_id'', ''_extract_title'', ''_extract_abstract'',
      ''_extract_copyrights'', ''_extract_doi'', ''_extract_isbn'', ''_extract_language'',
      ''_extract_publication_type'', ''_extract_publication_date'', ''_extract_publisher'',
      ''_extract_publisher_location'', ''_extract_authors'', ''_extract_sections'',
      ''_initialize_from_xml'', ''to_dict'', ''to_json'']"

datatype attr = Value pyval | BoundMethod string

text \<open>
  Attribute access \<^verbatim>\<open>self.name\<close> on an instance: a slot gives its value (or
  \<^verbatim>\<open>AttributeError\<close> when unset), a method of the class is bound, and any other name is
  an \<^verbatim>\<open>AttributeError\<close>, since \<^verbatim>\<open>__slots__\<close> leaves the instance without a
  \<^verbatim>\<open>__dict__\<close>.
\<close>

definition book_getattr :: "py_object \<Rightarrow> string \<Rightarrow> py_error + attr" where
  "book_getattr self name =
     (if name \<in> set book_slots then
        (case self name of None \<Rightarrow> Inl AttributeError | Some v \<Rightarrow> Inr (Value v))
      else if name \<in> set book_methods then Inr (BoundMethod name)
      else Inl AttributeError)"

definition book_author :: "xml \<Rightarrow> py_error + pyval" where
  "book_author author =
     bind_err (content [Descendant ''CollectiveName'' None] author) (\<lambda>collective.
     bind_err (content [Descendant ''LastName'' None] author) (\<lambda>lastname.
     bind_err (content [Descendant ''ForeName'' None] author) (\<lambda>firstname.
     bind_err (content [Descendant ''Initials'' None] author) (\<lambda>initials.
     Inr (PyDict [(''collective'', collective), (''lastname'', lastname),
                  (''firstname'', firstname), (''initials'', initials)])))))"

definition book_section :: "xml \<Rightarrow> py_error + pyval" where
  "book_section section =
     bind_err (content [Descendant ''SectionTitle'' None] section) (\<lambda>title.
     bind_err (content [Descendant ''LocationLabel'' None] section) (\<lambda>chapter.
     Inr (PyDict [(''title'', title), (''chapter'', chapter)])))"

text \<open>\<^verbatim>\<open>_initialize_from_xml\<close>: the fields in the order they are assigned.\<close>

definition book_extractors :: "(string \<times> (xml \<Rightarrow> py_error + pyval)) list" where
  "book_extractors =
     [(''pubmed_id'', content [Descendant ''ArticleId'' (Some (''IdType'', ''pubmed''))]),
      (''title'', content [Descendant ''BookTitle'' None]),
      (''abstract'', content [Descendant ''AbstractText'' None]),
      (''copyrights'', content [Descendant ''CopyrightInformation'' None]),
      (''doi'', content [Descendant ''ArticleId'' (Some (''IdType'', ''doi''))]),
      (''isbn'', content [Descendant ''Isbn'' None]),
      (''language'', content [Descendant ''Language'' None]),
      (''publication_date'', content [Descendant ''PubDate'' None, Child ''Year'' None]),
      (''authors'', \<lambda>e. bind_err (map_err book_author (findall [Descendant ''Author'' None] e))
           (\<lambda>authors. Inr (PyList authors))),
      (''publication_type'', content [Descendant ''PublicationType'' None]),
      (''publisher'', content [Descendant ''Publisher'' None, Child ''PublisherName'' None]),
      (''publisher_location'',
         content [Descendant ''Publisher'' None, Child ''PublisherLocation'' None]),
      (''sections'', \<lambda>e. bind_err (map_err book_section (findall [Descendant ''Section'' None] e))
           (\<lambda>sections. Inr (PyList sections)))]"

text \<open>\<^verbatim>\<open>hasattr(self, name)\<close>: whether the attribute access raises.\<close>

definition hasattr :: "py_object \<Rightarrow> string \<Rightarrow> bool" where
  "hasattr self name = (case book_getattr self name of Inl err \<Rightarrow> False | Inr a \<Rightarrow> True)"

text \<open>
  \<^verbatim>\<open>{key: (self.__getattribute__(key) if hasattr(self, key) else None) for key in
  self.__slots__}\<close>: the comprehension, key by key; the values of the dictionary are what
  the attribute access gives.
\<close>

fun to_dict_items :: "string list \<Rightarrow> py_object \<Rightarrow> py_error + (string \<times> attr) list" where
  "to_dict_items [] self = Inr []"
| "to_dict_items (key # keys) self =
     bind_err (if hasattr self key then book_getattr self key else Inr (Value PyNone))
       (\<lambda>v. bind_err (to_dict_items keys self) (\<lambda>rest. Inr ((key, v) # rest)))"

definition to_dict :: "py_object \<Rightarrow> py_error + (string \<times> attr) list" where
  "to_dict self = to_dict_items book_slots self"

text \<open>
  Calling what an attribute access gave: with the element as the only argument, and with
  no argument. A slot value is not callable; of the methods, \<^verbatim>\<open>_initialize_from_xml\<close>
  and \<^verbatim>\<open>to_dict\<close> are the ones modelled as callable this way.
\<close>

definition call_with_element :: "attr \<Rightarrow> py_object \<Rightarrow> xml \<Rightarrow> py_error + py_object" where
  "call_with_element a self e =
     (case a of
        Value v \<Rightarrow> Inl TypeError
      | BoundMethod name \<Rightarrow>
          if name = ''_initialize_from_xml'' then assign_all book_extractors e self
          else Inl TypeError)"

definition call_without_arguments ::
  "attr \<Rightarrow> py_object \<Rightarrow> py_error + (string \<times> attr) list" where
  "call_without_arguments a self =
     (case a of
        Value v \<Rightarrow> Inl TypeError
      | BoundMethod name \<Rightarrow> if name = ''to_dict'' then to_dict self else Inl TypeError)"

text \<open>
  \<^verbatim>\<open>PubMedBookArticle.__init__\<close>: with an element it calls
  \<^verbatim>\<open>self._initializeFromXML(xml_element=xml_element)\<close>.
\<close>

definition PubMedBookArticle_init ::
  "xml option \<Rightarrow> (string \<rightharpoonup> pyval) \<Rightarrow> py_error + py_object" where
  "PubMedBookArticle_init xml_element kwargs =
     (case xml_element of
        Some e \<Rightarrow>
          (case book_getattr Map.empty ''_initializeFromXML'' of
             Inl err \<Rightarrow> Inl err
           | Inr a \<Rightarrow> call_with_element a Map.empty e)
      | None \<Rightarrow> Inr (set_slots book_slots kwargs Map.empty))"

text \<open>
  \<^verbatim>\<open>to_json\<close>: the argument of \<^verbatim>\<open>json.dumps\<close> is built from \<^verbatim>\<open>self.toDict().items()\<close>,
  which is evaluated first. \<^verbatim>\<open>json.dumps\<close> (with its options) and \<^verbatim>\<open>str\<close> on a date
  are parameters.
\<close>

definition to_json ::
  "((string \<times> attr) list \<Rightarrow> py_error + string) \<Rightarrow> (date \<Rightarrow> string) \<Rightarrow> py_object
     \<Rightarrow> py_error + string" where
  "to_json dumps str self =
     (case book_getattr self ''toDict'' of
        Inl err \<Rightarrow> Inl err
      | Inr a \<Rightarrow>
          (case call_without_arguments a self of
             Inl err \<Rightarrow> Inl err
           | Inr d \<Rightarrow>
               dumps (map (\<lambda>(key, v).
                 (key, case v of Value (PyDate dt) \<Rightarrow> Value (PyStr (str dt)) | _ \<Rightarrow> v)) d)))"

section \<open>The rate limiter: \<^verbatim>\<open>_exceeded_rate_limit\<close> and \<^verbatim>\<open>_get\<close>\<close>

text \<open>
  Timestamps are microseconds. The clock is the sequence of values that the successive
  calls of \<^verbatim>\<open>datetime.datetime.now()\<close> return; \<open>clock_reads\<close> counts the calls made.
\<close>

record client =
  rateLimit :: nat
  requestsMade :: "int list"
  clock_reads :: nat

definition new_client :: client where
  "new_client = \<lparr>rateLimit = 3, requestsMade = [], clock_reads = 0\<rparr>"

text \<open>
  The list comprehension of \<^verbatim>\<open>_exceeded_rate_limit\<close>: it keeps the timestamps later than
  one second before now, and reads the clock once for every element.
\<close>

fun recent_requests :: "(nat \<Rightarrow> int) \<Rightarrow> nat \<Rightarrow> int list \<Rightarrow> int list \<times> nat" where
  "recent_requests clock n [] = ([], n)"
| "recent_requests clock n (requestTime # ts) =
     (let (kept, n') = recent_requests clock (Suc n) ts
      in (if requestTime > clock n - 1000000 then requestTime # kept else kept, n'))"

definition exceeded_rate_limit :: "(nat \<Rightarrow> int) \<Rightarrow> client \<Rightarrow> bool \<times> client" where
  "exceeded_rate_limit clock st =
     (let (kept, n) = recent_requests clock (clock_reads st) (requestsMade st)
      in (length kept > rateLimit st, st\<lparr>requestsMade := kept, clock_reads := n\<rparr>))"

text \<open>
  \<^verbatim>\<open>while self._exceeded_rate_limit(): pass\<close>; \<open>None\<close> when the wait never ends.
\<close>

partial_function (option) busy_wait :: "(nat \<Rightarrow> int) \<Rightarrow> client \<Rightarrow> client option" where
  "busy_wait clock st =
     (let r = exceeded_rate_limit clock st
      in if fst r then busy_wait clock (snd r) else Some (snd r))"

text \<open>
  \<^verbatim>\<open>_get\<close>: \<open>reply\<close> is what the request gives, \<open>Inl\<close> when \<^verbatim>\<open>requests.get\<close> or
  \<^verbatim>\<open>raise_for_status\<close> raises, in which case no timestamp is recorded.
\<close>

definition client_get ::
  "(nat \<Rightarrow> int) \<Rightarrow> py_error + 'a \<Rightarrow> client \<Rightarrow> ((py_error + 'a) \<times> client) option" where
  "client_get clock reply st =
     (case busy_wait clock st of
        None \<Rightarrow> None
      | Some st1 \<Rightarrow>
          (case reply of
             Inl e \<Rightarrow> Some (Inl e, st1)
           | Inr r \<Rightarrow>
               Some (Inr r, st1\<lparr>requestsMade := requestsMade st1 @ [clock (clock_reads st1)],
                                clock_reads := Suc (clock_reads st1)\<rparr>)))"

text \<open>Calls of \<^verbatim>\<open>_get\<close> one after the other.\<close>

fun client_gets :: "(nat \<Rightarrow> int) \<Rightarrow> (py_error + 'a) list \<Rightarrow> client \<Rightarrow> client option" where
  "client_gets clock [] st = Some st"
| "client_gets clock (reply # replies) st =
     (case client_get clock reply st of
        None \<Rightarrow> None
      | Some (r, st') \<Rightarrow> client_gets clock replies st')"

text \<open>A clock that advances by one microsecond between two readings.\<close>

definition ticking_clock :: "nat \<Rightarrow> int" where
  "ticking_clock n = int n"

section \<open>Verification of the identifier search\<close>

subsection \<open>Evaluation and auxiliary facts\<close>

lemmas search_eval = first_request_def loop_cond_def loop_body_def paged_source_def offset_def
  get_idlist_def get_count_def get_retmax_def Let_def five_ids_def outcome_def

lemma int_of_str_one: "int_of_str ''1'' = Inr 1"
  by (simp add: int_of_str_def strip_def parse_body_def max_str_digits_def parse_unsigned_def is_space_def
      is_digit_def
      digit_value_def)


text \<open>Three runs against the paged source: a bounded search, an unbounded one, and the requests of a third.\<close>

lemma bounded_search_example:
  "get_article_ids (paged_source 2 five_ids) ''cancer'' 3 = Some (Inr [''11'', ''12'', ''13''])"
  unfolding get_article_ids_def
  by (simp add: while_option_unfold search_eval)

lemma unbounded_search_example:
  "get_article_ids (paged_source 2 five_ids) ''cancer'' (- 1) = Some (Inr five_ids)"
  unfolding get_article_ids_def
  by (simp add: while_option_unfold search_eval)

lemma requests_example:
  "map (\<lambda>p. (retmax p, retstart p)) (requests (run_pages (paged_source 2 five_ids) ''cancer'' 5 2))
     = [(5, None), (3, Some 2), (1, Some 4)]"
  by (simp add: eval_nat_numeral search_eval)


lemma first_request_params [simp]:
  "retmax (params (first_request srv q m)) = (if m < 50000 then m else 50000)"
  by (simp add: first_request_def Let_def split: sum.splits)

lemma loop_body_total [simp]:
  "total_result_count (loop_body srv st) = total_result_count st"
  by (simp add: loop_body_def Let_def split: sum.splits)

lemma loop_body_max [simp]:
  "max_results (loop_body srv st) = max_results st"
  by (simp add: loop_body_def Let_def split: sum.splits)


subsection \<open>The run of the function and its prefixes\<close>

lemma run_pages_funpow:
  "\<forall>j<n. loop_cond ((loop_body srv ^^ j) (first_request srv q m)) \<Longrightarrow>
     run_pages srv q m n = (loop_body srv ^^ n) (first_request srv q m)"
  by (induction n) (auto simp: Let_def)

text \<open>The final state of a call that returns or raises is one of the states \<open>run_pages\<close> lists.\<close>

lemma while_run_pages:
  assumes "while_option loop_cond (loop_body srv) (first_request srv q m) = Some t"
  shows "\<exists>n. t = run_pages srv q m n"
proof -
  define k where "k = (LEAST k. \<not> loop_cond ((loop_body srv ^^ k) (first_request srv q m)))"
  from assms have t: "t = (loop_body srv ^^ k) (first_request srv q m)"
    by (simp add: while_option_def k_def split: if_splits)
  have "\<forall>i<k. loop_cond ((loop_body srv ^^ i) (first_request srv q m))"
    by (auto simp: k_def dest: not_less_Least)
  then show ?thesis
    using run_pages_funpow [of k srv q m] t by (intro exI [of _ k]) simp
qed

lemma get_article_ids_run_pages:
  "get_article_ids srv q m = Some res \<Longrightarrow> \<exists>n. res = outcome (run_pages srv q m n)"
  using while_run_pages [of srv q m] by (auto simp: get_article_ids_def)

subsection \<open>Termination\<close>























subsection \<open>The offsets sent\<close>

lemma offsets_ok_first: "offsets_ok srv (first_request srv q m)"
  by (auto simp: offsets_ok_def first_request_def Let_def reported_retmax_def split: sum.splits)

lemma offsets_ok_step:
  assumes "offsets_ok srv st" "loop_cond st"
  shows "offsets_ok srv (loop_body srv st)"
proof -
  from assms have rc:
    "retrieved_count st = (\<Sum>j<length (requests st). reported_retmax (srv j (requests st ! j)))"
    by (simp add: offsets_ok_def loop_cond_def)
  define p where "p = (if max_results st - retrieved_count st < retmax (params st)
                then (params st)\<lparr>retmax := max_results st - retrieved_count st\<rparr>
                else params st)\<lparr>retstart := Some (retrieved_count st)\<rparr>"
  have rq: "requests (loop_body srv st) = requests st @ [p]"
    by (simp add: loop_body_def Let_def p_def split: sum.splits)
  have same: "(\<Sum>j<k. reported_retmax (srv j ((requests st @ [p]) ! j)))
      = (\<Sum>j<k. reported_retmax (srv j (requests st ! j)))" if "k \<le> length (requests st)" for k
    using that by (intro sum.cong) (auto simp: nth_append)
  have old: "retstart (requests st ! k) = Some (\<Sum>j<k. reported_retmax (srv j (requests st ! j)))"
    if "0 < k" "k < length (requests st)" for k
    using assms(1) that by (simp add: offsets_ok_def)
  have part1: "retstart ((requests st @ [p]) ! k)
      = Some (\<Sum>j<k. reported_retmax (srv j ((requests st @ [p]) ! j)))"
    if "0 < k" "k < length (requests st @ [p])" for k
  proof (cases "k < length (requests st)")
    case True
    with that old [of k] same [of k] show ?thesis by (simp add: nth_append)
  next
    case False
    with that have k: "k = length (requests st)" by simp
    then show ?thesis using same [of k] rc by (simp add: p_def)
  qed
  have part2: "retrieved_count (loop_body srv st)
      = (\<Sum>j<length (requests st @ [p]). reported_retmax (srv j ((requests st @ [p]) ! j)))"
    if "raised (loop_body srv st) = None"
    using that rc same [of "length (requests st)"]
    by (auto simp: loop_body_def Let_def p_def reported_retmax_def split: sum.splits)
  show ?thesis
    unfolding offsets_ok_def rq using part1 part2 rq by auto
qed

lemma offsets_ok_run: "offsets_ok srv (run_pages srv q m n)"
  by (induction n) (auto simp: offsets_ok_first offsets_ok_step Let_def)

text \<open>
  C5: at every moment of every run, the request for page \<open>k + 1\<close> (the entry \<open>k\<close> of the
  requests sent, \<open>k > 0\<close>) carries as \<^verbatim>\<open>retstart\<close> the sum of the \<^verbatim>\<open>retmax\<close> values that the
  replies to the pages before it reported; the page sizes requested play no part.
\<close>

theorem retstart_sums_reported_retmax:
  "0 < k \<Longrightarrow> k < length (requests (run_pages srv q m n)) \<Longrightarrow>
     retstart (requests (run_pages srv q m n) ! k)
       = Some (\<Sum>j<k. reported_retmax (srv j (requests (run_pages srv q m n) ! j)))"
  using offsets_ok_run [of srv q m n] by (simp add: offsets_ok_def)

subsection \<open>The number of identifiers returned\<close>



















subsection \<open>The concrete sources satisfy the assumptions\<close>








lemmas hiccup_eval = search_eval hiccup_source_def

text \<open>Two runs against the source with a hiccup: the empty page costs one more request.\<close>

lemma hiccup_bounded_example:
  "get_article_ids (hiccup_source 2 five_ids) ''cancer'' 3 = Some (Inr [''11'', ''12'', ''13''])"
  unfolding get_article_ids_def
  by (simp add: while_option_unfold hiccup_eval)

lemma hiccup_unbounded_example:
  "get_article_ids (hiccup_source 2 five_ids) ''cancer'' (- 1) = Some (Inr five_ids)"
  unfolding get_article_ids_def
  by (simp add: while_option_unfold hiccup_eval)






text \<open>
  The third request of a search for 5 with pages capped at 2: the pages asked for had
  sizes 5 and 3, the replies reported 2 and 2, and the offset sent is 4.
\<close>

theorem retstart_sums_reported_retmax_witness:
  "(0::nat) < 2
    \<and> 2 < length (requests (run_pages (paged_source 2 five_ids) ''cancer'' 5 2))
    \<and> retstart (requests (run_pages (paged_source 2 five_ids) ''cancer'' 5 2) ! 2) = Some 4
    \<and> (\<Sum>j<2. reported_retmax (paged_source 2 five_ids j
          (requests (run_pages (paged_source 2 five_ids) ''cancer'' 5 2) ! j))) = 4"
proof -
  have len: "2 < length (requests (run_pages (paged_source 2 five_ids) ''cancer'' 5 2))"
    by (simp add: eval_nat_numeral search_eval)
  have s: "(\<Sum>j<2. reported_retmax (paged_source 2 five_ids j
          (requests (run_pages (paged_source 2 five_ids) ''cancer'' 5 2) ! j))) = 4"
    by (simp add: eval_nat_numeral search_eval reported_retmax_def)
  show ?thesis
    using len s retstart_sums_reported_retmax [OF _ len]
    by simp
qed

section \<open>Verification of the download-link resolver\<close>

lemma first_of_filter: "(case filter P xs of [] \<Rightarrow> None | x # ys \<Rightarrow> Some x) = List.find P xs"
  by (induction xs) auto

lemma matches_tag: "matches t None = (\<lambda>c. tag c = t)"
  by (simp add: matches_def fun_eq_iff)

lemma find_first_child: "find_first [Child t None] e = List.find (\<lambda>c. tag c = t) (children e)"
  by (simp add: find_first_def findall_def matches_tag first_of_filter)

lemma find_first_descendant:
  "find_first [Descendant t pr] e = List.find (matches t pr) (descendants e)"
  by (simp add: find_first_def findall_def first_of_filter)

lemma find_error: "(find_first [Child ''error'' None] root = None) = (\<not> has_error root)"
  by (auto simp: find_first_child has_error_def find_None_iff)

lemma find_record: "find_first [Descendant ''record'' None] root = first_record root"
  by (simp add: find_first_descendant first_record_def matches_tag)

lemma find_link:
  "find_first [Descendant ''link'' (Some (''format'', f))] r
     = List.find (is_link f) (descendants r)"
proof -
  have "matches ''link'' (Some (''format'', f)) = is_link f"
    by (auto simp: matches_def is_link_def fun_eq_iff)
  then show ?thesis by (simp add: find_first_descendant)
qed

lemma find_link_None: "(List.find (is_link f) (descendants r) = None) = (\<not> has_link r f)"
  by (auto simp: find_None_iff has_link_def)

lemma find_by_format_plain:
  "\<not> has_quote f \<Longrightarrow> find_by_format path_find r f = Inr (List.find (is_link f) (descendants r))"
  by (simp add: find_by_format_def find_link)

lemma plain_prefix_Cons:
  "plain_prefix (f # fs) = (if has_quote f then [] else f # plain_prefix fs)"
  by (simp add: plain_prefix_def)

lemma plain_prefix_all: "(plain_prefix fs = fs) = (\<forall>f \<in> set fs. \<not> has_quote f)"
  by (auto simp: plain_prefix_def takeWhile_eq_all_conv)

lemma first_matching_link_Cons:
  "first_matching_link r (f # fs) =
     (if has_link r f then List.find (is_link f) (descendants r) else first_matching_link r fs)"
  by (simp add: first_matching_link_def)

text \<open>
  The loop over the preference list, when there is a record: a link found among the
  formats before the first quote is the one returned.
\<close>

lemma for_accepted_format_prefix:
  assumes "first_matching_link r (plain_prefix fs) = Some link"
  shows "for_accepted_format path_find (Some r) fs =
     (case map_of (attrib link) ''href'' of None \<Rightarrow> Inl KeyError | Some h \<Rightarrow> Inr (Some h))"
  using assms
proof (induction fs)
  case Nil
  then show ?case by (simp add: plain_prefix_def first_matching_link_def)
next
  case (Cons f fs)
  show ?case
  proof (cases "has_quote f")
    case True
    with Cons.prems show ?thesis
      by (simp add: plain_prefix_Cons first_matching_link_def)
  next
    case plain: False
    show ?thesis
    proof (cases "has_link r f")
      case True
      with Cons.prems plain have "List.find (is_link f) (descendants r) = Some link"
        by (simp add: plain_prefix_Cons first_matching_link_Cons)
      with plain show ?thesis
        by (simp add: find_by_format_plain)
    next
      case False
      then have none: "List.find (is_link f) (descendants r) = None"
        using find_link_None [of f r] by simp
      from Cons.prems plain False have "first_matching_link r (plain_prefix fs) = Some link"
        by (simp add: plain_prefix_Cons first_matching_link_Cons)
      from Cons.IH [OF this] plain none show ?thesis
        by (simp add: find_by_format_plain)
    qed
  qed
qed

text \<open>Without a quote in the list and without a link of a listed format: \<^verbatim>\<open>None\<close>.\<close>

lemma for_accepted_format_none:
  assumes "plain_prefix fs = fs" "first_matching_link r fs = None"
  shows "for_accepted_format path_find (Some r) fs = Inr None"
  using assms
proof (induction fs)
  case Nil
  then show ?case by simp
next
  case (Cons f fs)
  from Cons.prems(1) have plain: "\<not> has_quote f" and rest: "plain_prefix fs = fs"
    by (simp_all add: plain_prefix_all)
  have no: "\<not> has_link r f"
  proof
    assume l: "has_link r f"
    then obtain x where "List.find (is_link f) (descendants r) = Some x"
      using find_link_None [of f r] by auto
    with l Cons.prems(2) show False by (simp add: first_matching_link_Cons)
  qed
  then have none: "List.find (is_link f) (descendants r) = None"
    using find_link_None [of f r] by simp
  from no Cons.prems(2) have "first_matching_link r fs = None"
    by (simp add: first_matching_link_Cons)
  from Cons.IH [OF rest this] plain none show ?case
    by (simp add: find_by_format_plain)
qed

lemma for_accepted_format_no_record:
  "for_accepted_format path_find None fs = (if fs = [] then Inr None else Inl AttributeError)"
  by (cases fs) auto

lemma download_url_parsed:
  "get_article_download_url path_find ''pmc'' fs (Inr (Document root)) =
     (if has_error root then Inr None
      else for_accepted_format path_find (first_record root) fs)"
  using find_error [of root]
  by (auto simp: get_article_download_url_def extract_xml_def find_record split: option.splits)

lemma download_url_malformed:
  "get_article_download_url path_find ''pmc'' fs (Inr Malformed) = Inr None"
  by (simp add: get_article_download_url_def extract_xml_def)

text \<open>The record of \<open>tgz_only\<close> and its link.\<close>

lemma tgz_only_record:
  "\<not> has_error tgz_only"
  "first_record tgz_only = Some (Element ''record'' [(''id'', ''PMC13901''), (''license'', ''CC BY'')]
     None [Element ''link'' [(''format'', ''tgz''), (''href'', ''ftp://host/a.tar.gz'')] None []])"
  by (simp_all add: has_error_def first_record_def tgz_only_def)

lemma tgz_only_links:
  "first_matching_link (Element ''record'' [(''id'', ''PMC13901''), (''license'', ''CC BY'')]
     None [Element ''link'' [(''format'', ''tgz''), (''href'', ''ftp://host/a.tar.gz'')] None []])
     [''pdf'', ''tgz'']
     = Some (Element ''link'' [(''format'', ''tgz''), (''href'', ''ftp://host/a.tar.gz'')] None [])"
  "first_matching_link (Element ''record'' [(''id'', ''PMC13901''), (''license'', ''CC BY'')]
     None [Element ''link'' [(''format'', ''tgz''), (''href'', ''ftp://host/a.tar.gz'')] None []])
     [''pdf''] = None"
  by (simp_all add: first_matching_link_def has_link_def is_link_def)

lemma plain_formats:
  "plain_prefix [''pdf'', ''tgz''] = [''pdf'', ''tgz'']" "plain_prefix [''pdf''] = [''pdf'']"
  by (simp_all add: plain_prefix_def has_quote_def)

text \<open>
  Against the claim C6: the response \<^verbatim>\<open><OA/>\<close> has no \<^verbatim>\<open>error\<close> element and no link of an
  accepted format, and the resolver does not return \<^verbatim>\<open>None\<close>: it raises on the absent
  record.
\<close>

theorem download_url_no_record_raises:
  "\<not> has_error empty_oa \<and> \<not> has_link empty_oa ''pdf'' \<and> \<not> has_link empty_oa ''tgz''
     \<and> get_article_download_url rejecting_find ''pmc'' [''pdf'', ''tgz'']
         (Inr (Document empty_oa)) = Inl AttributeError"
  by (simp add: download_url_parsed has_error_def has_link_def first_record_def empty_oa_def)

text \<open>
  C6, as amended: given the parsed response to the lookup call, the resolver returns
  \<^verbatim>\<open>None\<close> if the root contains an \<^verbatim>\<open>error\<close> element. Otherwise, if the response has a
  record node: when one of the entries of \<^verbatim>\<open>accepted_formats\<close> before the first entry
  with a single-quote character has a link under the record, the resolver takes the first
  link under the record whose format is the earliest such entry and returns its \<^verbatim>\<open>href\<close>
  (a link without that attribute is a \<^verbatim>\<open>KeyError\<close>); it returns \<^verbatim>\<open>None\<close> when no entry of
  \<^verbatim>\<open>accepted_formats\<close> has a single-quote character and the record has no link of an
  accepted format. This holds whatever the library does with the path text of a format
  with a single quote.
\<close>

theorem download_url_first_accepted_format:
  "(has_error root \<longrightarrow>
      get_article_download_url path_find ''pmc'' fs (Inr (Document root)) = Inr None)
   \<and> (\<not> has_error root \<longrightarrow> first_record root = Some r \<longrightarrow>
        (case first_matching_link r (plain_prefix fs) of
           Some link \<Rightarrow>
             get_article_download_url path_find ''pmc'' fs (Inr (Document root)) =
               (case map_of (attrib link) ''href'' of
                  None \<Rightarrow> Inl KeyError
                | Some h \<Rightarrow> Inr (Some h))
         | None \<Rightarrow>
             plain_prefix fs = fs \<longrightarrow>
               get_article_download_url path_find ''pmc'' fs (Inr (Document root)) = Inr None))"
  by (auto simp: download_url_parsed for_accepted_format_prefix for_accepted_format_none
      split: option.splits)

text \<open>
  The scenarios of the specification: a record with only a \<^verbatim>\<open>tgz\<close> link, asked for
  \<^verbatim>\<open>pdf\<close> or \<^verbatim>\<open>tgz\<close> and asked for \<^verbatim>\<open>pdf\<close> alone, and a response with an \<^verbatim>\<open>error\<close>
  element.
\<close>

theorem download_url_first_accepted_format_witness:
  "\<not> has_error tgz_only \<and> first_record tgz_only \<noteq> None
   \<and> get_article_download_url rejecting_find ''pmc'' [''pdf'', ''tgz''] (Inr (Document tgz_only))
       = Inr (Some ''ftp://host/a.tar.gz'')
   \<and> plain_prefix [''pdf''] = [''pdf'']
   \<and> get_article_download_url rejecting_find ''pmc'' [''pdf''] (Inr (Document tgz_only))
       = Inr None
   \<and> has_error error_oa
   \<and> get_article_download_url rejecting_find ''pmc'' [''pdf'', ''tgz''] (Inr (Document error_oa))
       = Inr None"
proof -
  have 4: "has_error error_oa" by (simp add: has_error_def error_oa_def)
  show ?thesis
    using download_url_first_accepted_format [of tgz_only rejecting_find "[''pdf'', ''tgz'']",
        THEN conjunct2, rule_format, OF tgz_only_record]
      download_url_first_accepted_format [of tgz_only rejecting_find "[''pdf'']",
        THEN conjunct2, rule_format, OF tgz_only_record]
      download_url_first_accepted_format [of error_oa rejecting_find "[''pdf'', ''tgz'']"]
      4 tgz_only_record
    by (simp add: plain_formats tgz_only_links)
qed

text \<open>
  Against the claim C9: with an empty \<^verbatim>\<open>accepted_formats\<close> the loop body never runs, and
  the response \<^verbatim>\<open><OA/>\<close>, which has neither an \<^verbatim>\<open>error\<close> nor a \<^verbatim>\<open>record\<close> element, gives
  \<^verbatim>\<open>None\<close> and no exception.
\<close>

theorem download_url_no_formats_no_record:
  "\<not> has_error empty_oa \<and> first_record empty_oa = None
     \<and> get_article_download_url rejecting_find ''pmc'' [] (Inr (Document empty_oa)) = Inr None"
  by (simp add: download_url_parsed has_error_def first_record_def empty_oa_def)

text \<open>
  C9, as amended: if the response parses but contains neither an \<^verbatim>\<open>error\<close> nor a
  \<^verbatim>\<open>record\<close> element and \<^verbatim>\<open>accepted_formats\<close> is not empty, the resolver raises
  \<^verbatim>\<open>AttributeError\<close>. It returns \<^verbatim>\<open>None\<close> for a body that does not parse and for a root
  with an \<^verbatim>\<open>error\<close> element; without an \<^verbatim>\<open>error\<close> element and without a record, exactly
  when \<^verbatim>\<open>accepted_formats\<close> is empty; with a record, never when an entry before the first
  one with a single-quote character has a link under the record, and, when no entry has a
  single-quote character, exactly when the record has no link of any accepted format.
  This holds whatever the library does with the path text of a format with a single quote.
\<close>

theorem download_url_missing_record:
  "(\<not> has_error root \<longrightarrow> first_record root = None \<longrightarrow> fs \<noteq> [] \<longrightarrow>
      get_article_download_url path_find ''pmc'' fs (Inr (Document root)) = Inl AttributeError)
   \<and> get_article_download_url path_find ''pmc'' fs (Inr Malformed) = Inr None
   \<and> (has_error root \<longrightarrow>
        get_article_download_url path_find ''pmc'' fs (Inr (Document root)) = Inr None)
   \<and> (\<not> has_error root \<longrightarrow> first_record root = None \<longrightarrow>
        (get_article_download_url path_find ''pmc'' fs (Inr (Document root)) = Inr None
           \<longleftrightarrow> fs = []))
   \<and> (\<not> has_error root \<longrightarrow> first_record root = Some r \<longrightarrow>
        (first_matching_link r (plain_prefix fs) \<noteq> None \<longrightarrow>
           get_article_download_url path_find ''pmc'' fs (Inr (Document root)) \<noteq> Inr None)
        \<and> (plain_prefix fs = fs \<longrightarrow>
             (get_article_download_url path_find ''pmc'' fs (Inr (Document root)) = Inr None
                \<longleftrightarrow> first_matching_link r fs = None)))"
proof (intro conjI impI)
  show "get_article_download_url path_find ''pmc'' fs (Inr (Document root)) = Inl AttributeError"
    if "\<not> has_error root" "first_record root = None" "fs \<noteq> []"
    using that by (simp add: download_url_parsed for_accepted_format_no_record)
  show "get_article_download_url path_find ''pmc'' fs (Inr Malformed) = Inr None"
    by (rule download_url_malformed)
  show "get_article_download_url path_find ''pmc'' fs (Inr (Document root)) = Inr None"
    if "has_error root"
    using that by (simp add: download_url_parsed)
  show "get_article_download_url path_find ''pmc'' fs (Inr (Document root)) = Inr None
           \<longleftrightarrow> fs = []"
    if "\<not> has_error root" "first_record root = None"
    using that by (simp add: download_url_parsed for_accepted_format_no_record)
  show "get_article_download_url path_find ''pmc'' fs (Inr (Document root)) \<noteq> Inr None"
    if "\<not> has_error root" "first_record root = Some r"
      "first_matching_link r (plain_prefix fs) \<noteq> None"
  proof -
    from that(3) obtain link where "first_matching_link r (plain_prefix fs) = Some link"
      by auto
    from for_accepted_format_prefix [OF this, of path_find] that(1,2) show ?thesis
      by (simp add: download_url_parsed split: option.splits)
  qed
  show "get_article_download_url path_find ''pmc'' fs (Inr (Document root)) = Inr None
           \<longleftrightarrow> first_matching_link r fs = None"
    if h: "\<not> has_error root" "first_record root = Some r" "plain_prefix fs = fs"
  proof (cases "first_matching_link r fs")
    case None
    with for_accepted_format_none [OF h(3) None, of path_find] h(1,2) show ?thesis
      by (simp add: download_url_parsed)
  next
    case (Some link)
    then have "first_matching_link r (plain_prefix fs) = Some link"
      by (simp add: h(3))
    from for_accepted_format_prefix [OF this, of path_find] h(1,2) Some show ?thesis
      by (simp add: download_url_parsed split: option.splits)
  qed
qed

text \<open>
  The bare root with the default formats, a body that does not parse, the response with an
  \<^verbatim>\<open>error\<close> element and the record with only a \<^verbatim>\<open>tgz\<close> link.
\<close>

theorem download_url_missing_record_witness:
  "\<not> has_error empty_oa \<and> first_record empty_oa = None \<and> [''pdf'', ''tgz''] \<noteq> []
   \<and> get_article_download_url rejecting_find ''pmc'' [''pdf'', ''tgz''] (Inr (Document empty_oa))
       = Inl AttributeError
   \<and> get_article_download_url rejecting_find ''pmc'' [''pdf'', ''tgz''] (Inr Malformed) = Inr None
   \<and> has_error error_oa
   \<and> get_article_download_url rejecting_find ''pmc'' [''pdf'', ''tgz''] (Inr (Document error_oa))
       = Inr None
   \<and> \<not> has_error tgz_only \<and> first_record tgz_only \<noteq> None
   \<and> get_article_download_url rejecting_find ''pmc'' [''pdf'', ''tgz''] (Inr (Document tgz_only))
       \<noteq> Inr None
   \<and> plain_prefix [''pdf''] = [''pdf'']
   \<and> get_article_download_url rejecting_find ''pmc'' [''pdf''] (Inr (Document tgz_only))
       = Inr None"
proof -
  have 1: "\<not> has_error empty_oa" "first_record empty_oa = None"
    by (simp_all add: has_error_def first_record_def empty_oa_def)
  have 2: "has_error error_oa" by (simp add: has_error_def error_oa_def)
  show ?thesis
    using 1 2 tgz_only_record
      download_url_missing_record [of empty_oa "[''pdf'', ''tgz'']" rejecting_find]
      download_url_missing_record [of error_oa "[''pdf'', ''tgz'']" rejecting_find]
      download_url_missing_record [of tgz_only "[''pdf'', ''tgz'']" rejecting_find,
        THEN conjunct2, THEN conjunct2, THEN conjunct2, THEN conjunct2, rule_format,
        OF tgz_only_record]
      download_url_missing_record [of tgz_only "[''pdf'']" rejecting_find,
        THEN conjunct2, THEN conjunct2, THEN conjunct2, THEN conjunct2, rule_format,
        OF tgz_only_record]
    by (simp add: plain_formats tgz_only_links)
qed

section \<open>Verification of the article entity\<close>

lemmas xml_eval = find_first_def findall_def matches_def str_or_none_def int_of_str_def strip_def
  parse_body_def max_str_digits_def parse_unsigned_def is_space_def is_digit_def digit_value_def

text \<open>The scenario of the specification: a title and no keywords.\<close>

lemma article_from_xml_example:
  "\<exists>self. PubMedArticle_init (Some sample_article) Map.empty = Inr self
     \<and> self ''title'' = Some (PyStr ''X'') \<and> self ''keywords'' = Some (PyList [])
     \<and> self ''publication_date'' = Some (PyDate (Date 2020 5 1))"
  by (simp add: PubMedArticle_init_def article_extractors_def content_def get_content_def
      bind_err_def extract_keywords_def article_extract_authors_def extract_publication_date_def
      publication_date_try_def py_date_def days_in_month_def sample_article_def
      sample_pub_date_def xml_eval)

lemma get_content_Some:
  "get_content (Some pd) [Descendant name None] dflt =
     Inr (case find_first [Descendant name None] pd of None \<Rightarrow> dflt | Some el \<Rightarrow> elem_text el)"
  by (simp add: get_content_def split: option.splits)

lemma part_or_get_content:
  "bind_err (get_content (Some pd) [Descendant name None] dflt)
       (\<lambda>t. bind_err (py_int (str_or_none t)) f)
     = bind_err (part_or pd name (py_int (str_or_none dflt))) f"
  by (simp add: get_content_Some part_or_def bind_err_def split: option.splits)

lemma publication_date_try_Some:
  assumes "pubmed_pub_date e = Some pd"
  shows "publication_date_try e =
     bind_err (part_or pd ''Year'' (Inl TypeError)) (\<lambda>y.
     bind_err (part_or pd ''Month'' (Inr 1)) (\<lambda>m.
     bind_err (part_or pd ''Day'' (Inr 1)) (\<lambda>d. py_date y m d)))"
proof -
  have "py_int (str_or_none None) = Inl TypeError" "py_int (str_or_none (Some ''1'')) = Inr 1"
    by (simp_all add: str_or_none_def int_of_str_one)
  then show ?thesis
    using assms [unfolded pubmed_pub_date_def]
    by (simp add: publication_date_try_def part_or_get_content)
qed

lemma publication_date_try_None:
  assumes "pubmed_pub_date e = None"
  shows "publication_date_try e = Inl AttributeError"
  using assms [unfolded pubmed_pub_date_def]
  by (simp add: publication_date_try_def get_content_def bind_err_def)

text \<open>The other fields: with the helper as the specification has it, no extractor raises.\<close>

lemma content_total:
  "content path e =
     Inr (str_or_none (case find_first path e of None \<Rightarrow> None | Some m \<Rightarrow> elem_text m))"
  by (simp add: content_def get_content_def bind_err_def split: option.splits)

lemma map_err_total:
  "(\<And>x. f x = Inr (g x)) \<Longrightarrow> map_err f xs = Inr (map g xs)"
  by (induction xs) (simp_all add: bind_err_def)

lemma article_author_total: "\<exists>g. \<forall>a. article_author a = Inr (g a)"
  by (intro exI allI) (simp add: article_author_def content_total bind_err_def)

lemma article_extract_authors_total: "\<exists>v. article_extract_authors e = Inr v"
proof -
  obtain g where "\<And>a. article_author a = Inr (g a)"
    using article_author_total by blast
  then show ?thesis
    by (simp add: article_extract_authors_def map_err_total bind_err_def)
qed

lemma init_from_xml:
  "\<exists>self. PubMedArticle_init (Some e) kwargs = Inr self
     \<and> self ''publication_date''
         = Some (case publication_date_try e of Inl x \<Rightarrow> PyNone | Inr d \<Rightarrow> PyDate d)"
proof -
  obtain v where "article_extract_authors e = Inr v"
    using article_extract_authors_total by blast
  then show ?thesis
    by (simp add: PubMedArticle_init_def article_extractors_def content_total
        extract_keywords_def extract_publication_date_def bind_err_def split: sum.splits)
qed

text \<open>
  C7: \<^verbatim>\<open>_extract_publication_date\<close> never raises, and construction of a
  \<^verbatim>\<open>PubMedArticle\<close> from an element succeeds with the \<^verbatim>\<open>publication_date\<close> field set to
  the date, or to \<^verbatim>\<open>None\<close> when the \<^verbatim>\<open>try\<close> block raised. Any exception in the
  \<^verbatim>\<open>try\<close> block gives \<^verbatim>\<open>None\<close>; so does an absent date node and an absent year, which
  is mandatory. When the year, the month and the day can be read, a month and a day whose
  element is absent counting as 1, the result is the date they make, or \<^verbatim>\<open>None\<close> if they
  make none.
\<close>

theorem publication_date_never_raises:
  "(\<exists>r. extract_publication_date e = Inr r)
   \<and> (\<exists>self. PubMedArticle_init (Some e) kwargs = Inr self
         \<and> self ''publication_date''
             = Some (case publication_date_try e of Inl x \<Rightarrow> PyNone | Inr d \<Rightarrow> PyDate d))
   \<and> (publication_date_try e = Inl err \<longrightarrow> extract_publication_date e = Inr None)
   \<and> (pubmed_pub_date e = None \<longrightarrow> extract_publication_date e = Inr None)
   \<and> (pubmed_pub_date e = Some pd \<longrightarrow> find_first [Descendant ''Year'' None] pd = None \<longrightarrow>
        extract_publication_date e = Inr None)
   \<and> (pubmed_pub_date e = Some pd \<longrightarrow> part_or pd ''Year'' (Inl TypeError) = Inr y \<longrightarrow>
        part_or pd ''Month'' (Inr 1) = Inr m \<longrightarrow> part_or pd ''Day'' (Inr 1) = Inr d \<longrightarrow>
        extract_publication_date e =
          Inr (case py_date y m d of Inl x \<Rightarrow> None | Inr dt \<Rightarrow> Some dt))"
proof (intro conjI impI)
  show "\<exists>r. extract_publication_date e = Inr r"
    by (simp add: extract_publication_date_def split: sum.splits)
  show "\<exists>self. PubMedArticle_init (Some e) kwargs = Inr self
         \<and> self ''publication_date''
             = Some (case publication_date_try e of Inl x \<Rightarrow> PyNone | Inr d \<Rightarrow> PyDate d)"
    by (rule init_from_xml)
  show "extract_publication_date e = Inr None" if "publication_date_try e = Inl err"
    using that by (simp add: extract_publication_date_def)
  show "extract_publication_date e = Inr None" if "pubmed_pub_date e = None"
    using publication_date_try_None [OF that] by (simp add: extract_publication_date_def)
  show "extract_publication_date e = Inr None"
    if "pubmed_pub_date e = Some pd" "find_first [Descendant ''Year'' None] pd = None"
    using publication_date_try_Some [OF that(1)] that(2)
    by (simp add: extract_publication_date_def part_or_def bind_err_def)
  show "extract_publication_date e
      = Inr (case py_date y m d of Inl x \<Rightarrow> None | Inr dt \<Rightarrow> Some dt)"
    if "pubmed_pub_date e = Some pd" "part_or pd ''Year'' (Inl TypeError) = Inr y"
      "part_or pd ''Month'' (Inr 1) = Inr m" "part_or pd ''Day'' (Inr 1) = Inr d"
    using publication_date_try_Some [OF that(1)] that(2-4)
    by (simp add: extract_publication_date_def bind_err_def split: sum.splits)
qed

text \<open>
  A record dated 2020-05 without a day gives the first of May; a record whose date node
  has no year gives \<^verbatim>\<open>None\<close>, by the \<^verbatim>\<open>TypeError\<close> of \<^verbatim>\<open>int(None)\<close>.
\<close>

theorem publication_date_never_raises_witness:
  "pubmed_pub_date sample_article = Some sample_pub_date
   \<and> part_or sample_pub_date ''Year'' (Inl TypeError) = Inr 2020
   \<and> part_or sample_pub_date ''Month'' (Inr 1) = Inr 5
   \<and> part_or sample_pub_date ''Day'' (Inr 1) = Inr 1
   \<and> extract_publication_date sample_article = Inr (Some (Date 2020 5 1))
   \<and> pubmed_pub_date undated_article = Some yearless_pub_date
   \<and> find_first [Descendant ''Year'' None] yearless_pub_date = None
   \<and> publication_date_try undated_article = Inl TypeError
   \<and> extract_publication_date undated_article = Inr None"
proof -
  have 1: "pubmed_pub_date sample_article = Some sample_pub_date"
    by (simp add: pubmed_pub_date_def sample_article_def sample_pub_date_def xml_eval)
  have 2: "part_or sample_pub_date ''Year'' (Inl TypeError) = Inr 2020"
    "part_or sample_pub_date ''Month'' (Inr 1) = Inr 5"
    "part_or sample_pub_date ''Day'' (Inr 1) = Inr 1"
    by (simp_all add: part_or_def sample_pub_date_def xml_eval)
  have 3: "py_date 2020 5 1 = Inr (Date 2020 5 1)"
    by (simp add: py_date_def days_in_month_def)
  have 4: "pubmed_pub_date undated_article = Some yearless_pub_date"
    by (simp add: pubmed_pub_date_def undated_article_def yearless_pub_date_def xml_eval)
  have 5: "find_first [Descendant ''Year'' None] yearless_pub_date = None"
    by (simp add: yearless_pub_date_def xml_eval)
  have 6: "publication_date_try undated_article = Inl TypeError"
    using publication_date_try_Some [OF 4] 5 by (simp add: part_or_def bind_err_def)
  show ?thesis
    using 1 2 3 4 5 6
      publication_date_never_raises [of sample_article _ _ sample_pub_date 2020 5 1]
      publication_date_never_raises [of undated_article _ TypeError yearless_pub_date]
    by simp
qed

lemma set_slots_apply:
  "set_slots fs kwargs self f = (if f \<in> set fs then Some (dict_get kwargs f PyNone) else self f)"
  by (induction fs arbitrary: self) auto

lemma getattribute_all_map:
  "\<forall>k \<in> set ks. self k = Some (g k) \<Longrightarrow>
     getattribute_all ks self = Inr (map (\<lambda>k. (k, g k)) ks)"
  by (induction ks) (auto simp: bind_err_def)

lemma map_of_slots:
  "f \<in> set fs \<Longrightarrow> map_of (map (\<lambda>k. (k, g k)) fs) f = Some (g f)"
  by (induction fs) auto

text \<open>
  C8: an article constructed without an XML element from keyword arguments, then
  converted with \<^verbatim>\<open>toDict\<close>, gives the dictionary whose keys are the declared fields, in
  their order, each with the value supplied for it, and \<^verbatim>\<open>None\<close> for a field that was
  not supplied.
\<close>

theorem article_round_trip:
  "\<exists>self d. PubMedArticle_init None kwargs = Inr self \<and> toDict self = Inr d
     \<and> d = map (\<lambda>field. (field, dict_get kwargs field PyNone)) article_slots
     \<and> (\<forall>field v. field \<in> set article_slots \<longrightarrow> kwargs field = Some v \<longrightarrow>
           map_of d field = Some v)
     \<and> (\<forall>field. field \<in> set article_slots \<longrightarrow> kwargs field = None \<longrightarrow>
           map_of d field = Some PyNone)"
proof -
  define self where "self = set_slots article_slots kwargs Map.empty"
  define d where "d = map (\<lambda>field. (field, dict_get kwargs field PyNone)) article_slots"
  have "PubMedArticle_init None kwargs = Inr self"
    by (simp add: PubMedArticle_init_def self_def)
  moreover have "toDict self = Inr d"
    unfolding toDict_def d_def self_def
    by (rule getattribute_all_map) (simp add: set_slots_apply)
  moreover have "map_of d field = Some (dict_get kwargs field PyNone)"
    if "field \<in> set article_slots" for field
    unfolding d_def using that by (rule map_of_slots)
  ultimately show ?thesis
    by (intro exI [of _ self] exI [of _ d]) (auto simp: d_def dict_get_def)
qed

theorem article_round_trip_witness:
  "\<exists>self d.
     PubMedArticle_init None [''title'' \<mapsto> PyStr ''X'', ''keywords'' \<mapsto> PyList []] = Inr self
     \<and> toDict self = Inr d
     \<and> map_of d ''title'' = Some (PyStr ''X'') \<and> map_of d ''keywords'' = Some (PyList [])
     \<and> map_of d ''doi'' = Some PyNone"
proof -
  have "''title'' \<in> set article_slots" "''keywords'' \<in> set article_slots"
    "''doi'' \<in> set article_slots"
    by (simp_all add: article_slots_def)
  with article_round_trip [of "[''title'' \<mapsto> PyStr ''X'', ''keywords'' \<mapsto> PyList []]"]
  show ?thesis
    by (elim exE conjE) (intro exI conjI, assumption, assumption, simp_all)
qed

section \<open>Verification of the book entity\<close>

text \<open>The dictionary of \<^verbatim>\<open>to_dict\<close>: a slot that is set gives its value, one that is not, \<^verbatim>\<open>None\<close>.\<close>

lemma to_dict_items_slots:
  "set keys \<subseteq> set book_slots \<Longrightarrow>
     to_dict_items keys self =
       Inr (map (\<lambda>key. (key, Value (case self key of None \<Rightarrow> PyNone | Some v \<Rightarrow> v))) keys)"
  by (induction keys) (auto simp: hasattr_def book_getattr_def bind_err_def split: option.splits)

lemma to_dict_slots:
  "to_dict self =
     Inr (map (\<lambda>key. (key, Value (case self key of None \<Rightarrow> PyNone | Some v \<Rightarrow> v))) book_slots)"
  unfolding to_dict_def by (rule to_dict_items_slots) simp

lemma book_no_toDict: "book_getattr self ''toDict'' = Inl AttributeError"
  by (simp add: book_getattr_def book_slots_def book_methods_def)

lemma book_no_initializeFromXML: "book_getattr self ''_initializeFromXML'' = Inl AttributeError"
  by (simp add: book_getattr_def book_slots_def book_methods_def)

text \<open>
  C10: on every instance of \<^verbatim>\<open>PubMedBookArticle\<close>, whatever its slots hold, \<^verbatim>\<open>to_json\<close>
  raises \<^verbatim>\<open>AttributeError\<close> (the class has \<^verbatim>\<open>to_dict\<close> and no \<^verbatim>\<open>toDict\<close>) and returns no
  string, while \<^verbatim>\<open>to_dict\<close> returns the mapping of the declared fields: every field, in the
  order of \<^verbatim>\<open>__slots__\<close>, with the value its slot holds, and \<^verbatim>\<open>None\<close> for a slot that is
  not set. Instances come from the keyword path only, where every slot holds the value
  supplied for it or \<^verbatim>\<open>None\<close>: construction from an element raises \<^verbatim>\<open>AttributeError\<close> too.
\<close>

theorem book_to_json_raises:
  "to_json dumps str self = Inl AttributeError
   \<and> to_dict self =
       Inr (map (\<lambda>key. (key, Value (case self key of None \<Rightarrow> PyNone | Some v \<Rightarrow> v))) book_slots)
   \<and> PubMedBookArticle_init (Some e) kwargs = Inl AttributeError
   \<and> (\<exists>self'. PubMedBookArticle_init None kwargs = Inr self'
         \<and> to_dict self' =
             Inr (map (\<lambda>field. (field, Value (dict_get kwargs field PyNone))) book_slots)
         \<and> to_json dumps str self' = Inl AttributeError)"
proof -
  have 1: "to_json dumps str x = Inl AttributeError" for x
    by (simp add: to_json_def book_no_toDict)
  have 2: "PubMedBookArticle_init (Some e) kwargs = Inl AttributeError"
    by (simp add: PubMedBookArticle_init_def book_no_initializeFromXML)
  have 3: "PubMedBookArticle_init None kwargs = Inr (set_slots book_slots kwargs Map.empty)"
    by (simp add: PubMedBookArticle_init_def)
  have 4: "to_dict (set_slots book_slots kwargs Map.empty) =
             Inr (map (\<lambda>field. (field, Value (dict_get kwargs field PyNone))) book_slots)"
    unfolding to_dict_slots by (simp add: set_slots_apply)
  from 1 2 3 4 to_dict_slots [of self] show ?thesis
    by (intro conjI exI [of _ "set_slots book_slots kwargs Map.empty"])
qed

section \<open>Evaluation of the rate limiter\<close>

text \<open>
  C4: four calls of \<^verbatim>\<open>_get\<close> in a row on a new client, on a clock that advances one
  microsecond per reading. The check before the fourth request finds three timestamps,
  which is not more than the limit of three, so the request is sent: afterwards four
  dispatch timestamps lie within ten microseconds.
\<close>

theorem rate_limit_fourth_dispatch:
  "client_gets ticking_clock [Inr (), Inr (), Inr (), Inr ()] new_client
     = Some \<lparr>rateLimit = 3, requestsMade = [0, 2, 5, 9], clock_reads = 10\<rparr>"
  by (simp add: client_get_def busy_wait.simps exceeded_rate_limit_def new_client_def
      ticking_clock_def Let_def)

end
